theory Spec2Isabelle
  imports Complex_Main
begin

section \<open>JavaScript values and errors\<close>

text \<open>
  The customization handed to the cart (\<^verbatim>\<open>customCoffee\<close>) is an arbitrary JavaScript
  value that the cart only tests for truthiness. Numbers are modelled as rationals
  (NaN and the infinities are left out); an object is the list of its properties.
\<close>

datatype jsval =
    JUndefined
  | JNull
  | JBool bool
  | JNum rat
  | JStr string
  | JObj "(string \<times> jsval) list"

text \<open>ToBoolean of ECMAScript: what \<^verbatim>\<open>!x\<close> and \<^verbatim>\<open>x || y\<close> inspect. Every object is truthy,
  the empty object included.\<close>

fun truthy :: "jsval \<Rightarrow> bool" where
  "truthy JUndefined = False"
| "truthy JNull = False"
| "truthy (JBool b) = b"
| "truthy (JNum n) = (n \<noteq> 0)"
| "truthy (JStr s) = (s \<noteq> [])"
| "truthy (JObj props) = True"

datatype js_error = TypeError | SyntaxError | Error string

section \<open>Products and cart entries\<close>

text \<open>
  A product is a JavaScript object. The cart reads its \<^verbatim>\<open>_id\<close> (written \<open>oid\<close>), \<^verbatim>\<open>name\<close>
  and \<^verbatim>\<open>price\<close>; its remaining properties (\<^verbatim>\<open>category\<close>, \<^verbatim>\<open>description\<close>, \<^verbatim>\<open>image\<close>,
  \<^verbatim>\<open>inStock\<close>, where present) are carried along unread in \<open>other_props\<close>.
  A cart entry is \<^verbatim>\<open>{ ...product, quantity, customCoffee }\<close>: the product's properties
  and the two properties of the entry.
\<close>

record product =
  oid :: string
  name :: string
  price :: rat
  other_props :: "(string \<times> jsval) list"

record item = product +
  quantity :: int
  customCoffee :: jsval

type_synonym cart = "item list"

text \<open>The object literal \<^verbatim>\<open>{ ...product, quantity, customCoffee }\<close>.\<close>

definition spread_item :: "product \<Rightarrow> int \<Rightarrow> jsval \<Rightarrow> item" where
  "spread_item p q c =
     \<lparr>oid = oid p, name = name p, price = price p, other_props = other_props p,
      quantity = q, customCoffee = c\<rparr>"

section \<open>The cart store (CartProvider)\<close>

text \<open>\<^verbatim>\<open>Array.prototype.findIndex\<close>: the index of the first element that satisfies the
  predicate, scanning from index 0, and \<open>-1\<close> when there is none.\<close>

fun findIndexFrom :: "nat \<Rightarrow> ('a \<Rightarrow> bool) \<Rightarrow> 'a list \<Rightarrow> int" where
  "findIndexFrom i P [] = - 1"
| "findIndexFrom i P (x # xs) = (if P x then int i else findIndexFrom (Suc i) P xs)"

definition findIndex :: "('a \<Rightarrow> bool) \<Rightarrow> 'a list \<Rightarrow> int" where
  "findIndex P xs = findIndexFrom 0 P xs"

text \<open>
  \<^verbatim>\<open>
  const addToCart = (product, quantity = 1, customCoffee = null) => {
    setCart(prevCart => {
      const existingItemIndex = prevCart.findIndex(
        item => item._id === product._id && !item.customCoffee);
      if (existingItemIndex > -1 && !customCoffee) {
        const newCart = [...prevCart];
        newCart[existingItemIndex].quantity += quantity;
        return newCart;
      } else {
        return [...prevCart, { ...product, quantity, customCoffee }];
      }
    });
  };
  \<close>
  The state updater is modelled as a function from the previous cart to the next one
  (the source updates the quantity of the entry object in place and returns a new array
  that holds it).
  A parameter default applies when the argument is missing or \<^verbatim>\<open>undefined\<close>: the
  quantity argument is an option, the customization argument may be \<open>JUndefined\<close>.
\<close>

definition default_quantity :: "int option \<Rightarrow> int" where
  "default_quantity quantity_arg = (case quantity_arg of None \<Rightarrow> 1 | Some q \<Rightarrow> q)"

definition default_customCoffee :: "jsval \<Rightarrow> jsval" where
  "default_customCoffee customCoffee_arg =
     (if customCoffee_arg = JUndefined then JNull else customCoffee_arg)"

definition addToCart :: "product \<Rightarrow> int option \<Rightarrow> jsval \<Rightarrow> cart \<Rightarrow> cart" where
  "addToCart p quantity_arg customCoffee_arg prevCart =
     (let qty = default_quantity quantity_arg;
          cc = default_customCoffee customCoffee_arg;
          existingItemIndex =
            findIndex (\<lambda>it. oid it = oid p \<and> \<not> truthy (customCoffee it)) prevCart
      in if existingItemIndex > - 1 \<and> \<not> truthy cc
         then prevCart[nat existingItemIndex :=
                (prevCart ! nat existingItemIndex)
                  \<lparr>quantity := quantity (prevCart ! nat existingItemIndex) + qty\<rparr>]
         else prevCart @ [spread_item p qty cc])"

text \<open>
  \<^verbatim>\<open>
  const removeFromCart = (index) => {
    setCart(prevCart => prevCart.filter((_, i) => i !== index));
  };
  \<close>
\<close>

definition removeFromCart :: "int \<Rightarrow> cart \<Rightarrow> cart" where
  "removeFromCart index prevCart =
     map snd (filter (\<lambda>(i, _). int i \<noteq> index) (enumerate 0 prevCart))"

text \<open>
  \<^verbatim>\<open>
  const updateQuantity = (index, quantity) => {
    if (quantity <= 0) { removeFromCart(index); return; }
    setCart(prevCart => {
      const newCart = [...prevCart];
      newCart[index].quantity = quantity;
      return newCart;
    });
  };
  \<close>
  Reading \<^verbatim>\<open>newCart[index]\<close> outside the array gives \<^verbatim>\<open>undefined\<close>, and assigning a
  property of \<^verbatim>\<open>undefined\<close> throws a TypeError.
\<close>

definition updateQuantity :: "int \<Rightarrow> int \<Rightarrow> cart \<Rightarrow> js_error + cart" where
  "updateQuantity index qty prevCart =
     (if qty \<le> 0 then Inr (removeFromCart index prevCart)
      else if 0 \<le> index \<and> index < int (length prevCart)
        then Inr (prevCart[nat index := (prevCart ! nat index)\<lparr>quantity := qty\<rparr>])
        else Inl TypeError)"

definition clearCart :: "cart \<Rightarrow> cart" where
  "clearCart prevCart = []"

text \<open>
  \<^verbatim>\<open>cart.reduce((total, item) => total + (item.price * item.quantity), 0)\<close> and
  \<^verbatim>\<open>cart.reduce((count, item) => count + item.quantity, 0)\<close>: left folds from 0.
  Prices are exact rationals here; the source adds IEEE doubles in the same order.
\<close>

definition getCartTotal :: "cart \<Rightarrow> rat" where
  "getCartTotal c = foldl (\<lambda>total it. total + price it * of_int (quantity it)) 0 c"




subsection \<open>Sequences of calls\<close>

text \<open>A run of \<^verbatim>\<open>addToCart(product, quantity)\<close> calls that pass no customization: the third
  argument is missing, so the parameter default \<^verbatim>\<open>null\<close> applies.\<close>

fun addAll :: "(product \<times> int option) list \<Rightarrow> cart \<Rightarrow> cart" where
  "addAll [] c = c"
| "addAll ((p, q) # calls) c = addAll calls (addToCart p q JUndefined c)"

text \<open>The calls a component can make on the cart store, and a run of them. A TypeError
  thrown by a state updater ends the run.\<close>

datatype cart_call =
    AddToCart product "int option" jsval
  | RemoveFromCart int
  | UpdateQuantity int int
  | ClearCart

fun cart_call_apply :: "cart_call \<Rightarrow> cart \<Rightarrow> js_error + cart" where
  "cart_call_apply (AddToCart p q cc) c = Inr (addToCart p q cc c)"
| "cart_call_apply (RemoveFromCart i) c = Inr (removeFromCart i c)"
| "cart_call_apply (UpdateQuantity i q) c = updateQuantity i q c"
| "cart_call_apply ClearCart c = Inr (clearCart c)"

fun cart_run :: "cart_call list \<Rightarrow> cart \<Rightarrow> js_error + cart" where
  "cart_run [] c = Inr c"
| "cart_run (x # xs) c =
     (case cart_call_apply x c of Inl e \<Rightarrow> Inl e | Inr c' \<Rightarrow> cart_run xs c')"

text \<open>An entry without a customization (a falsy \<^verbatim>\<open>customCoffee\<close>) for a product id, and
  the entries of a cart that are such.\<close>

definition plain_entry :: "string \<Rightarrow> item \<Rightarrow> bool" where
  "plain_entry pid it \<longleftrightarrow> oid it = pid \<and> \<not> truthy (customCoffee it)"

definition plain_entries :: "string \<Rightarrow> cart \<Rightarrow> item list" where
  "plain_entries pid c = filter (plain_entry pid) c"

text \<open>Two different positions of the cart hold entries with the same product id, both
  without a customization.\<close>

definition duplicate_plain :: "cart \<Rightarrow> bool" where
  "duplicate_plain c \<longleftrightarrow>
     (\<exists>i < length c. \<exists>j < length c. i \<noteq> j \<and> oid (c ! i) = oid (c ! j)
        \<and> \<not> truthy (customCoffee (c ! i)) \<and> \<not> truthy (customCoffee (c ! j)))"

definition plain_unique :: "cart \<Rightarrow> bool" where
  "plain_unique c \<longleftrightarrow> distinct (map oid (filter (\<lambda>it. \<not> truthy (customCoffee it)) c))"

subsection \<open>Loading the cart on mount\<close>

text \<open>
  \<^verbatim>\<open>
  const [cart, setCart] = useState([]);
  useEffect(() => {
    const savedCart = localStorage.getItem('cart');
    if (savedCart) { setCart(JSON.parse(savedCart)); }
  }, []);
  \<close>
  \<^verbatim>\<open>localStorage\<close> is a map from keys to texts; \<^verbatim>\<open>getItem\<close> gives \<^verbatim>\<open>null\<close> for a key
  that is not there, and \<^verbatim>\<open>null\<close> and the empty text are falsy. \<^verbatim>\<open>JSON.parse\<close> is the
  platform's: what it does on the saved text is an input of the model, \<open>Inl e\<close> when
  it throws \<open>e\<close> and \<open>Inr c\<close> when it returns the array of entries \<open>c\<close>. The effect
  contains no \<^verbatim>\<open>try\<close>, so what \<^verbatim>\<open>JSON.parse\<close> throws leaves the effect. The result is
  the cart after the effect, or the error.
\<close>

type_synonym storage = "string \<rightharpoonup> string"

definition CartProvider_mount :: "storage \<Rightarrow> js_error + cart \<Rightarrow> js_error + cart" where
  "CartProvider_mount localStorage JSON_parse_result =
     (let cart0 = [] in
      case localStorage ''cart'' of
        None \<Rightarrow> Inr cart0
      | Some savedCart \<Rightarrow>
          if savedCart = [] then Inr cart0
          else (case JSON_parse_result of Inl e \<Rightarrow> Inl e | Inr parsed \<Rightarrow> Inr parsed))"

section \<open>The coffee builder\<close>

text \<open>
  \<^verbatim>\<open>
  const [sugar, setSugar] = useState(0);
  const [milk, setMilk] = useState('none');
  const [coffee, setCoffee] = useState(1);
  const [chocolate, setChocolate] = useState(0);
  const basePrice = 3.50;
  const addOns = { sugar: 0.25, milk: { regular: 0.50, oat: 0.75 }, coffee: 0.75,
                   chocolate: 0.50 };
  \<close>
  Every constant is a multiple of a quarter and every reachable count is at most 5, so
  each intermediate value is a double without rounding: the rationals below are the
  values the source computes.
\<close>

record builder =
  sugar :: int
  milk :: string
  coffee :: int
  chocolate :: int

definition initial_builder :: builder where
  "initial_builder = \<lparr>sugar = 0, milk = ''none'', coffee = 1, chocolate = 0\<rparr>"

definition basePrice :: rat where "basePrice = 7 / 2"
definition addOns_sugar :: rat where "addOns_sugar = 1 / 4"
definition addOns_milk_regular :: rat where "addOns_milk_regular = 1 / 2"
definition addOns_milk_oat :: rat where "addOns_milk_oat = 3 / 4"
definition addOns_coffee :: rat where "addOns_coffee = 3 / 4"
definition addOns_chocolate :: rat where "addOns_chocolate = 1 / 2"

text \<open>
  \<^verbatim>\<open>
  const calculatePrice = () => {
    let price = basePrice;
    price += sugar * addOns.sugar;
    if (milk === 'regular') price += addOns.milk.regular;
    if (milk === 'oat') price += addOns.milk.oat;
    price += (coffee - 1) * addOns.coffee;
    price += chocolate * addOns.chocolate;
    return price;
  };
  \<close>
\<close>

definition calculatePrice :: "builder \<Rightarrow> rat" where
  "calculatePrice b =
     (let price1 = basePrice;
          price2 = price1 + of_int (sugar b) * addOns_sugar;
          price3 = (if milk b = ''regular'' then price2 + addOns_milk_regular else price2);
          price4 = (if milk b = ''oat'' then price3 + addOns_milk_oat else price3);
          price5 = price4 + of_int (coffee b - 1) * addOns_coffee;
          price6 = price5 + of_int (chocolate b) * addOns_chocolate
      in price6)"

text \<open>The controls of the builder: the minus and plus buttons clamp with
  \<^verbatim>\<open>Math.max\<close> and \<^verbatim>\<open>Math.min\<close>, and the three radio inputs carry the values
  \<^verbatim>\<open>none\<close>, \<^verbatim>\<open>regular\<close> and \<^verbatim>\<open>oat\<close>.\<close>

datatype milk_radio = RadioNone | RadioRegular | RadioOat

fun radio_value :: "milk_radio \<Rightarrow> string" where
  "radio_value RadioNone = ''none''"
| "radio_value RadioRegular = ''regular''"
| "radio_value RadioOat = ''oat''"

datatype builder_click =
    SugarMinus | SugarPlus
  | MilkChange milk_radio
  | CoffeeMinus | CoffeePlus
  | ChocolateMinus | ChocolatePlus

fun builder_click_apply :: "builder_click \<Rightarrow> builder \<Rightarrow> builder" where
  "builder_click_apply SugarMinus b = b\<lparr>sugar := max 0 (sugar b - 1)\<rparr>"
| "builder_click_apply SugarPlus b = b\<lparr>sugar := min 5 (sugar b + 1)\<rparr>"
| "builder_click_apply (MilkChange r) b = b\<lparr>milk := radio_value r\<rparr>"
| "builder_click_apply CoffeeMinus b = b\<lparr>coffee := max 1 (coffee b - 1)\<rparr>"
| "builder_click_apply CoffeePlus b = b\<lparr>coffee := min 4 (coffee b + 1)\<rparr>"
| "builder_click_apply ChocolateMinus b = b\<lparr>chocolate := max 0 (chocolate b - 1)\<rparr>"
| "builder_click_apply ChocolatePlus b = b\<lparr>chocolate := min 5 (chocolate b + 1)\<rparr>"

fun builder_run :: "builder_click list \<Rightarrow> builder \<Rightarrow> builder" where
  "builder_run [] b = b"
| "builder_run (x # xs) b = builder_run xs (builder_click_apply x b)"

text \<open>
  \<^verbatim>\<open>
  const handleAddToCart = () => {
    const customCoffee = { name: 'Custom Coffee', price: calculatePrice(),
      category: 'Coffee', description: 'Your custom coffee creation',
      image: 'data:image/svg+xml;base64,...', _id: 'custom-coffee-' + Date.now() };
    const coffeeConfig = { sugar, milk, coffee, chocolate };
    addToCart(customCoffee, 1, coffeeConfig);
    navigate('/cart');
  };
  \<close>
  \<^verbatim>\<open>Date.now()\<close> is a parameter: a count of milliseconds, appended in decimal.
\<close>

fun decimal :: "nat \<Rightarrow> string" where
  "decimal n =
     (if n < 10 then [''0123456789'' ! n]
      else decimal (n div 10) @ [''0123456789'' ! (n mod 10)])"

definition custom_coffee_image :: string where
  "custom_coffee_image =
     ''data:image/svg+xml;base64,PHN2ZyB4bWxucz0iaHR0cDovL3d3dy53My5vcmcvMjAwMC9zdmciIHdpZHRoPSIzMDAiIGhlaWdodD0iMjAwIj48cmVjdCB3aWR0aD0iMzAwIiBoZWlnaHQ9IjIwMCIgZmlsbD0iIzhCNDUxMyIvPjx0ZXh0IHg9IjUwJSIgeT0iNTAlIiBmb250LWZhbWlseT0iQXJpYWwiIGZvbnQtc2l6ZT0iMzAiIGZpbGw9IndoaXRlIiB0ZXh0LWFuY2hvcj0ibWlkZGxlIiBkb21pbmFudC1iYXNlbGluZT0ibWlkZGxlIj7imJUgQ3VzdG9tPC90ZXh0Pjwvc3ZnPg==''"

definition coffeeConfig :: "builder \<Rightarrow> jsval" where
  "coffeeConfig b =
     JObj [(''sugar'', JNum (of_int (sugar b))), (''milk'', JStr (milk b)),
           (''coffee'', JNum (of_int (coffee b))), (''chocolate'', JNum (of_int (chocolate b)))]"

definition handleAddToCart :: "nat \<Rightarrow> builder \<Rightarrow> cart \<Rightarrow> cart" where
  "handleAddToCart now b prevCart =
     addToCart
       \<lparr>oid = ''custom-coffee-'' @ decimal now, name = ''Custom Coffee'',
        price = calculatePrice b,
        other_props = [(''category'', JStr ''Coffee''),
                       (''description'', JStr ''Your custom coffee creation''),
                       (''image'', JStr custom_coffee_image)]\<rparr>
       (Some 1) (coffeeConfig b) prevCart"

text \<open>The price as the specification writes it: the base price, a quarter per sugar,
  the milk surcharge from a table, three quarters per extra shot and a half per pump.\<close>

definition spec_milk_delta :: "string \<Rightarrow> rat" where
  "spec_milk_delta m =
     (if m = ''none'' then 0 else if m = ''regular'' then 1 / 2
      else if m = ''oat'' then 3 / 4 else 0)"

definition spec_price :: "builder \<Rightarrow> rat" where
  "spec_price b =
     7 / 2 + (1 / 4) * of_int (sugar b) + spec_milk_delta (milk b)
       + (3 / 4) * (of_int (coffee b) - 1) + (1 / 2) * of_int (chocolate b)"

definition builder_in_range :: "builder \<Rightarrow> bool" where
  "builder_in_range b \<longleftrightarrow>
     0 \<le> sugar b \<and> sugar b \<le> 5 \<and> milk b \<in> set [''none'', ''regular'', ''oat'']
     \<and> 1 \<le> coffee b \<and> coffee b \<le> 4 \<and> 0 \<le> chocolate b \<and> chocolate b \<le> 5"

section \<open>The cart page and checkout\<close>

text \<open>
  The order payload built by \<^verbatim>\<open>handleCheckout\<close>:
  \<^verbatim>\<open>
  const orderData = {
    items: cart.map(item => ({ productId: item._id, name: item.name, price: item.price,
      quantity: item.quantity, customCoffee: item.customCoffee || undefined })),
    totalAmount: getCartTotal()
  };
  \<close>
\<close>

record order_line =
  line_productId :: string
  line_name :: string
  line_price :: rat
  line_quantity :: int
  line_customCoffee :: jsval

record orderData =
  order_items :: "order_line list"
  totalAmount :: rat

definition make_orderData :: "cart \<Rightarrow> orderData" where
  "make_orderData c =
     \<lparr>order_items = map (\<lambda>it.
          \<lparr>line_productId = oid it, line_name = name it, line_price = price it,
           line_quantity = quantity it,
           line_customCoffee =
             (if truthy (customCoffee it) then customCoffee it else JUndefined)\<rparr>) c,
      totalAmount = getCartTotal c\<rparr>"

text \<open>A response of \<^verbatim>\<open>fetch\<close> with its HTTP status; \<^verbatim>\<open>response.ok\<close> is true exactly for
  the statuses 200 to 299 (Fetch standard).\<close>

record response =
  status :: nat

definition ok :: "response \<Rightarrow> bool" where
  "ok r \<longleftrightarrow> 200 \<le> status r \<and> status r \<le> 299"

text \<open>
  The state around the \<^verbatim>\<open>Cart\<close> component: the cart of the context, the component's
  \<^verbatim>\<open>showCheckout\<close> and \<^verbatim>\<open>toast\<close>, what \<^verbatim>\<open>console.error\<close> has logged, the payloads of
  the \<^verbatim>\<open>fetch\<close> calls made so far, the number of those whose promise has not settled,
  and the number of 2000 ms timeouts set and not yet fired.
\<close>

record page =
  page_cart :: cart
  showCheckout :: bool
  toast :: "string option"
  console_error :: "js_error list"
  fetch_calls :: "orderData list"
  awaiting :: nat
  timeouts :: nat

definition toast_placed :: string where
  "toast_placed =
     ''Order placed successfully! '' @ [CHR 0xF0, CHR 0x9F, CHR 0x8E, CHR 0x89]"

definition toast_failed :: string where
  "toast_failed = ''Failed to place order. Please try again.''"

definition toast_error :: string where
  "toast_error = ''Error placing order. Please try again.''"

text \<open>
  \<^verbatim>\<open>handleCheckout\<close> is an async function. Up to its \<^verbatim>\<open>await\<close> it runs in the click
  handler: it builds the payload and calls \<^verbatim>\<open>fetch\<close>. It reads and writes no flag.
\<close>

definition handleCheckout_call :: "page \<Rightarrow> page" where
  "handleCheckout_call s =
     s\<lparr>fetch_calls := fetch_calls s @ [make_orderData (page_cart s)],
       awaiting := Suc (awaiting s)\<rparr>"

text \<open>
  When the promise of \<^verbatim>\<open>fetch\<close> settles the function resumes inside its \<^verbatim>\<open>try\<close>:
  \<^verbatim>\<open>
  try {
    const response = await fetch('/api/orders', {...});
    if (response.ok) {
      setToast('Order placed successfully! ...');
      setTimeout(() => { clearCart(); setShowCheckout(false); }, 2000);
    } else {
      setToast('Failed to place order. Please try again.');
    }
  } catch (error) {
    console.error('Error placing order:', error);
    setToast('Error placing order. Please try again.');
  }
  \<close>
  The outcome of the \<^verbatim>\<open>await\<close> is \<open>Inr response\<close>, or \<open>Inl error\<close> when the promise
  rejects and the \<^verbatim>\<open>await\<close> throws. The result of the whole function is \<open>Inl e\<close> when
  \<open>e\<close> leaves it (its promise rejects) and \<open>Inr s\<close> when it returns in state \<open>s\<close>.
\<close>

definition try_block :: "js_error + response \<Rightarrow> page \<Rightarrow> js_error + page" where
  "try_block outcome s =
     (case outcome of
        Inl error \<Rightarrow> Inl error
      | Inr response \<Rightarrow>
          if ok response
          then Inr (s\<lparr>toast := Some toast_placed, timeouts := Suc (timeouts s)\<rparr>)
          else Inr (s\<lparr>toast := Some toast_failed\<rparr>))"

definition catch_block :: "js_error \<Rightarrow> page \<Rightarrow> js_error + page" where
  "catch_block error s =
     Inr (s\<lparr>console_error := console_error s @ [error], toast := Some toast_error\<rparr>)"

definition handleCheckout_resume :: "js_error + response \<Rightarrow> page \<Rightarrow> js_error + page" where
  "handleCheckout_resume outcome s =
     (let s1 = s\<lparr>awaiting := awaiting s - 1\<rparr> in
      case try_block outcome s1 of
        Inl error \<Rightarrow> catch_block error s1
      | Inr s2 \<Rightarrow> Inr s2)"

text \<open>One press of Place Order whose request settles with the given outcome before
  anything else happens.\<close>

definition handleCheckout :: "js_error + response \<Rightarrow> page \<Rightarrow> js_error + page" where
  "handleCheckout outcome s = handleCheckout_resume outcome (handleCheckout_call s)"

text \<open>The timeout callback of a successful order: \<^verbatim>\<open>clearCart(); setShowCheckout(false)\<close>.\<close>

definition timeout_fires :: "page \<Rightarrow> page" where
  "timeout_fires s =
     s\<lparr>page_cart := clearCart (page_cart s), showCheckout := False,
       timeouts := timeouts s - 1\<rparr>"

text \<open>
  What the component renders. With an empty cart it returns the empty-cart view, which
  holds neither the toast nor any checkout control. Otherwise the toast is rendered
  when \<^verbatim>\<open>toast\<close> is set, and the Place Order button is rendered when \<^verbatim>\<open>showCheckout\<close>
  is true; its \<^verbatim>\<open>onClick\<close> is \<^verbatim>\<open>handleCheckout\<close>. Nothing else decides whether the button
  is there.
\<close>

definition shown_toast :: "page \<Rightarrow> string option" where
  "shown_toast s = (if page_cart s = [] then None else toast s)"

definition place_order_rendered :: "page \<Rightarrow> bool" where
  "place_order_rendered s \<longleftrightarrow> page_cart s \<noteq> [] \<and> showCheckout s"

definition click_place_order :: "page \<Rightarrow> page" where
  "click_place_order s = (if place_order_rendered s then handleCheckout_call s else s)"

section \<open>Sample data\<close>

text \<open>The product and the customized coffee of the cart store's tests:
  \<^verbatim>\<open>{ _id: '1', name: 'Test Product', price: 10 }\<close>, and
  \<^verbatim>\<open>{ _id: '2', name: 'Coffee', price: 15 }\<close> with the customization \<^verbatim>\<open>{ size: 'large' }\<close>.\<close>

definition test_product :: product where
  "test_product = \<lparr>oid = ''1'', name = ''Test Product'', price = 10, other_props = []\<rparr>"

definition test_coffee :: product where
  "test_coffee = \<lparr>oid = ''2'', name = ''Coffee'', price = 15, other_props = []\<rparr>"

definition size_large :: jsval where
  "size_large = JObj [(''size'', JStr ''large'')]"

text \<open>The cart page of the page tests after Proceed to Checkout was clicked: one entry in
  the cart, the confirmation shown, nothing sent yet.\<close>

definition confirming_page :: page where
  "confirming_page =
     \<lparr>page_cart = [spread_item test_product 1 JNull], showCheckout = True, toast = None,
      console_error = [], fetch_calls = [], awaiting = 0, timeouts = 0\<rparr>"

section \<open>Properties of the cart store\<close>

subsection \<open>Totals\<close>




subsection \<open>Removing by index\<close>

lemma remove_enumerate:
  "map snd (filter (\<lambda>(j, _). int j \<noteq> i) (enumerate n xs))
     = (if int n \<le> i \<and> i < int (n + length xs)
        then take (nat i - n) xs @ drop (Suc (nat i - n)) xs else xs)"
proof (induction xs arbitrary: n)
  case Nil
  then show ?case by simp
next
  case (Cons x xs)
  show ?case
  proof (cases "int n = i")
    case True
    have "map snd (filter (\<lambda>(j, _). int j \<noteq> i) (enumerate (Suc n) xs)) = xs"
      using True by (simp add: Cons.IH)
    with True show ?thesis by auto
  next
    case False
    show ?thesis
    proof (cases "int n < i \<and> i < int (n + length (x # xs))")
      case True
      then have "nat i - n = Suc (nat i - Suc n)" by linarith
      with True False show ?thesis by (simp add: Cons.IH)
    next
      case False
      with \<open>int n \<noteq> i\<close> show ?thesis by (auto simp add: Cons.IH)
    qed
  qed
qed

lemma removeFromCart_inside:
  "0 \<le> i \<Longrightarrow> i < int (length c) \<Longrightarrow>
     removeFromCart i c = take (nat i) c @ drop (Suc (nat i)) c"
  by (simp add: removeFromCart_def remove_enumerate)

lemma removeFromCart_outside:
  "i < 0 \<or> int (length c) \<le> i \<Longrightarrow> removeFromCart i c = c"
  by (auto simp add: removeFromCart_def remove_enumerate)

text \<open>
  C7. For every cart, index and new quantity at most 0, \<open>updateQuantity\<close> gives the cart
  that \<open>removeFromCart\<close> gives at that index; for an index inside the cart that cart is
  one entry shorter and is the old cart without the entry at that index.
\<close>

theorem updateQuantity_nonpositive_is_remove:
  assumes "q \<le> 0"
  shows "updateQuantity i q c = Inr (removeFromCart i c)
     \<and> (0 \<le> i \<and> i < int (length c) \<longrightarrow>
          Suc (length (removeFromCart i c)) = length c
          \<and> removeFromCart i c = take (nat i) c @ drop (Suc (nat i)) c)"
proof -
  have "updateQuantity i q c = Inr (removeFromCart i c)"
    using assms by (simp add: updateQuantity_def)
  moreover have "Suc (length (removeFromCart i c)) = length c
      \<and> removeFromCart i c = take (nat i) c @ drop (Suc (nat i)) c"
    if "0 \<le> i" "i < int (length c)"
  proof -
    have eq: "removeFromCart i c = take (nat i) c @ drop (Suc (nat i)) c"
      using that by (rule removeFromCart_inside)
    have "nat i < length c" using that by linarith
    then have "Suc (length (take (nat i) c @ drop (Suc (nat i)) c)) = length c"
      by simp
    with eq show ?thesis by simp
  qed
  ultimately show ?thesis by blast
qed

theorem updateQuantity_nonpositive_is_remove_witness:
  "updateQuantity 0 0 [spread_item test_product 1 JNull, spread_item test_coffee 1 size_large]
     = Inr [spread_item test_coffee 1 size_large]
   \<and> removeFromCart 0 [spread_item test_product 1 JNull, spread_item test_coffee 1 size_large]
     = [spread_item test_coffee 1 size_large]"
  using updateQuantity_nonpositive_is_remove
          [of 0 0 "[spread_item test_product 1 JNull, spread_item test_coffee 1 size_large]"]
  by simp

text \<open>
  C10. For every cart and every index outside the cart, \<open>updateQuantity\<close> with a
  positive quantity throws a TypeError, while \<open>removeFromCart\<close> at that index leaves the
  cart as it is.
\<close>

theorem updateQuantity_outside_throws:
  assumes "0 < q" and "i < 0 \<or> int (length c) \<le> i"
  shows "updateQuantity i q c = Inl TypeError \<and> removeFromCart i c = c"
  using assms by (auto simp add: updateQuantity_def removeFromCart_outside)

theorem updateQuantity_outside_throws_witness:
  "updateQuantity 1 3 [spread_item test_product 1 JNull] = Inl TypeError
   \<and> removeFromCart 1 [spread_item test_product 1 JNull] = [spread_item test_product 1 JNull]
   \<and> updateQuantity (- 1) 3 [] = Inl TypeError"
  using updateQuantity_outside_throws [of 3 1 "[spread_item test_product 1 JNull]"]
        updateQuantity_outside_throws [of 3 "- 1" "[]"]
  by simp

subsection \<open>Adding\<close>

lemma truthy_default_customCoffee [simp]:
  "truthy (default_customCoffee cc) = truthy cc"
  by (simp add: default_customCoffee_def)

lemma findIndexFrom_none:
  "\<forall>x\<in>set xs. \<not> P x \<Longrightarrow> findIndexFrom i P xs = - 1"
  by (induction xs arbitrary: i) simp_all

lemma findIndexFrom_first:
  "\<forall>y\<in>set ys. \<not> P y \<Longrightarrow> P x \<Longrightarrow> findIndexFrom i P (ys @ x # zs) = int (i + length ys)"
  by (induction ys arbitrary: i) simp_all

lemma findIndex_none: "\<forall>x\<in>set xs. \<not> P x \<Longrightarrow> findIndex P xs = - 1"
  by (simp add: findIndex_def findIndexFrom_none)

lemma findIndex_first:
  "\<forall>y\<in>set ys. \<not> P y \<Longrightarrow> P x \<Longrightarrow> findIndex P (ys @ x # zs) = int (length ys)"
  by (simp add: findIndex_def findIndexFrom_first)

lemma addToCart_append:
  assumes "truthy cc \<or> (\<forall>it\<in>set c. \<not> (oid it = oid p \<and> \<not> truthy (customCoffee it)))"
  shows "addToCart p q cc c
           = c @ [spread_item p (default_quantity q) (default_customCoffee cc)]"
  using assms by (auto simp add: addToCart_def Let_def findIndex_none)

lemma addToCart_merge:
  assumes "\<not> truthy cc"
    and "\<forall>y\<in>set ys. \<not> (oid y = oid p \<and> \<not> truthy (customCoffee y))"
    and "oid x = oid p" and "\<not> truthy (customCoffee x)"
  shows "addToCart p q cc (ys @ x # zs)
           = ys @ x\<lparr>quantity := quantity x + default_quantity q\<rparr> # zs"
proof -
  have "findIndex (\<lambda>it. oid it = oid p \<and> \<not> truthy (customCoffee it)) (ys @ x # zs)
          = int (length ys)"
    using assms by (intro findIndex_first) simp_all
  with assms(1) show ?thesis
    by (simp add: addToCart_def Let_def)
qed

text \<open>
  C8. For every call of \<open>addToCart\<close> with a non-empty customization object, the cart
  afterwards is the cart before followed by one new entry: its length grows by one and
  no existing entry is touched, whatever customizations the cart already holds.
\<close>

theorem addToCart_customized_appends:
  assumes "cc = JObj props" and "props \<noteq> []"
  shows "addToCart p q cc c = c @ [spread_item p (default_quantity q) cc]
     \<and> length (addToCart p q cc c) = Suc (length c)"
proof -
  have "truthy cc" using assms(1) by simp
  then have "addToCart p q cc c
      = c @ [spread_item p (default_quantity q) (default_customCoffee cc)]"
    by (simp add: addToCart_append)
  moreover have "default_customCoffee cc = cc"
    using assms(1) by (simp add: default_customCoffee_def)
  ultimately show ?thesis by simp
qed

theorem addToCart_customized_appends_witness:
  "addToCart test_coffee (Some 1) size_large
     (addToCart test_coffee (Some 1) size_large [])
   = [spread_item test_coffee 1 size_large, spread_item test_coffee 1 size_large]"
  using addToCart_customized_appends
          [of size_large "[(''size'', JStr ''large'')]" test_coffee "Some 1" "[]"]
        addToCart_customized_appends
          [of size_large "[(''size'', JStr ''large'')]" test_coffee "Some 1"
              "[spread_item test_coffee 1 size_large]"]
  by (simp add: size_large_def default_quantity_def)

text \<open>
  C6 (amended). For every call of \<open>addToCart\<close> whose customization is falsy (missing,
  \<^verbatim>\<open>undefined\<close> or \<^verbatim>\<open>null\<close>), if the cart holds an entry with the product's id and a
  falsy customization, the call adds the requested quantity to the first such entry
  and appends nothing. An empty object is a customization: with \<^verbatim>\<open>{}\<close> the call
  appends a new entry.
\<close>

theorem addToCart_plain_increments:
  assumes "\<not> truthy cc"
    and "\<exists>it\<in>set c. oid it = oid p \<and> \<not> truthy (customCoffee it)"
  shows "(\<exists>k < length c.
           oid (c ! k) = oid p \<and> \<not> truthy (customCoffee (c ! k))
           \<and> (\<forall>j < k. \<not> (oid (c ! j) = oid p \<and> \<not> truthy (customCoffee (c ! j))))
           \<and> addToCart p q cc c
               = c[k := (c ! k)\<lparr>quantity := quantity (c ! k) + default_quantity q\<rparr>])
     \<and> addToCart p q (JObj []) c = c @ [spread_item p (default_quantity q) (JObj [])]"
proof -
  let ?P = "\<lambda>it. oid it = oid p \<and> \<not> truthy (customCoffee it)"
  from assms(2) obtain ys x zs where c: "c = ys @ x # zs" and x: "?P x"
    and ys: "\<forall>y\<in>set ys. \<not> ?P y"
    using split_list_first_prop [of c ?P] by blast
  have add: "addToCart p q cc c = ys @ x\<lparr>quantity := quantity x + default_quantity q\<rparr> # zs"
    unfolding c using assms(1) ys x by (intro addToCart_merge) simp_all
  have "length ys < length c" by (simp add: c)
  moreover have "?P (c ! length ys)" using x by (simp add: c)
  moreover have "\<forall>j < length ys. \<not> ?P (c ! j)"
    using ys by (simp add: c nth_append)
  moreover have "addToCart p q cc c
      = c[length ys := (c ! length ys)
            \<lparr>quantity := quantity (c ! length ys) + default_quantity q\<rparr>]"
    by (simp add: add) (simp add: c)
  ultimately have "\<exists>k < length c.
           oid (c ! k) = oid p \<and> \<not> truthy (customCoffee (c ! k))
           \<and> (\<forall>j < k. \<not> (oid (c ! j) = oid p \<and> \<not> truthy (customCoffee (c ! j))))
           \<and> addToCart p q cc c
               = c[k := (c ! k)\<lparr>quantity := quantity (c ! k) + default_quantity q\<rparr>]"
    by blast
  moreover have "addToCart p q (JObj []) c = c @ [spread_item p (default_quantity q) (JObj [])]"
    by (simp add: addToCart_append default_customCoffee_def)
  ultimately show ?thesis by blast
qed


theorem addToCart_plain_increments_witness:
  "addToCart test_product (Some 1) JNull [spread_item test_product 1 JNull]
     = [spread_item test_product 2 JNull]
   \<and> addToCart test_product (Some 1) (JObj []) [spread_item test_product 1 JNull]
     = [spread_item test_product 1 JNull, spread_item test_product 1 (JObj [])]"
  using addToCart_plain_increments
          [of JNull "[spread_item test_product 1 JNull]" test_product "Some 1"]
  by (simp add: spread_item_def default_quantity_def)

theorem addToCart_empty_object_counterexample:
  "addToCart test_product (Some 1) (JObj []) [spread_item test_product 1 JNull]
     = [spread_item test_product 1 JNull, spread_item test_product 1 (JObj [])]
   \<and> addToCart test_product (Some 1) (JObj []) [spread_item test_product 1 JNull]
     \<noteq> [spread_item test_product 2 JNull]"
  by (simp add: addToCart_def findIndex_def default_quantity_def default_customCoffee_def
        spread_item_def)

subsection \<open>Runs of calls without a customization\<close>

lemma plain_entry_spread_item:
  "plain_entry pid (spread_item p q cc) \<longleftrightarrow> oid p = pid \<and> \<not> truthy cc"
  by (simp add: plain_entry_def spread_item_def)

lemma addToCart_plain_cases:
  assumes "\<not> truthy cc"
  shows "(plain_entries (oid p) c = []
            \<and> addToCart p q cc c
                = c @ [spread_item p (default_quantity q) (default_customCoffee cc)])
       \<or> (\<exists>ys x zs. c = ys @ x # zs \<and> plain_entries (oid p) ys = []
            \<and> plain_entry (oid p) x
            \<and> addToCart p q cc c
                = ys @ x\<lparr>quantity := quantity x + default_quantity q\<rparr> # zs)"
proof (cases "\<exists>it\<in>set c. plain_entry (oid p) it")
  case False
  then have none: "\<forall>it\<in>set c. \<not> (oid it = oid p \<and> \<not> truthy (customCoffee it))"
    by (simp add: plain_entry_def)
  then have "addToCart p q cc c
      = c @ [spread_item p (default_quantity q) (default_customCoffee cc)]"
    by (simp add: addToCart_append)
  moreover have "plain_entries (oid p) c = []"
    using False by (simp add: plain_entries_def filter_empty_conv)
  ultimately show ?thesis by blast
next
  case True
  then obtain ys x zs where c: "c = ys @ x # zs" and x: "plain_entry (oid p) x"
    and ys: "\<forall>y\<in>set ys. \<not> plain_entry (oid p) y"
    using split_list_first_prop [of c "plain_entry (oid p)"] by blast
  have "addToCart p q cc (ys @ x # zs)
      = ys @ x\<lparr>quantity := quantity x + default_quantity q\<rparr> # zs"
    using assms ys x by (intro addToCart_merge) (simp_all add: plain_entry_def)
  moreover have "plain_entries (oid p) ys = []"
    using ys by (simp add: plain_entries_def filter_empty_conv)
  ultimately show ?thesis using c x by blast
qed

lemma addToCart_plain_length:
  assumes "\<not> truthy cc"
  shows "length (plain_entries (oid p) (addToCart p q cc c))
           = max 1 (length (plain_entries (oid p) c))"
  using addToCart_plain_cases [OF assms, of p c q] assms
  by (auto simp add: plain_entries_def plain_entry_spread_item)
     (auto simp add: plain_entry_def)

lemma addToCart_plain_quantity:
  assumes "\<not> truthy cc"
  shows "(\<Sum>it\<leftarrow>plain_entries (oid p) (addToCart p q cc c). quantity it)
           = (\<Sum>it\<leftarrow>plain_entries (oid p) c. quantity it) + default_quantity q"
  using addToCart_plain_cases [OF assms, of p c q] assms
  by (auto simp add: plain_entries_def plain_entry_spread_item)
     (auto simp add: plain_entry_def spread_item_def)

lemma addAll_plain_length:
  assumes "\<forall>(p, q)\<in>set calls. oid p = pid"
  shows "length (plain_entries pid (addAll calls c))
           = (if calls = [] then length (plain_entries pid c)
              else max 1 (length (plain_entries pid c)))"
  using assms
proof (induction calls arbitrary: c)
  case Nil
  then show ?case by simp
next
  case (Cons call calls)
  obtain p q where call: "call = (p, q)" by (cases call)
  with Cons.prems have pid: "oid p = pid" by simp
  have step: "length (plain_entries pid (addToCart p q JUndefined c))
      = max 1 (length (plain_entries pid c))"
    using addToCart_plain_length [of JUndefined p q c] pid by simp
  from Cons.prems have rest: "\<forall>(p, q)\<in>set calls. oid p = pid" by simp
  show ?case
    using Cons.IH [OF rest, of "addToCart p q JUndefined c"] step
    by (simp add: call)
qed

lemma addAll_plain_quantity:
  assumes "\<forall>(p, q)\<in>set calls. oid p = pid"
  shows "(\<Sum>it\<leftarrow>plain_entries pid (addAll calls c). quantity it)
           = (\<Sum>it\<leftarrow>plain_entries pid c. quantity it)
             + (\<Sum>(p, q)\<leftarrow>calls. default_quantity q)"
  using assms
proof (induction calls arbitrary: c)
  case Nil
  then show ?case by simp
next
  case (Cons call calls)
  obtain p q where call: "call = (p, q)" by (cases call)
  with Cons.prems have pid: "oid p = pid" by simp
  have step: "(\<Sum>it\<leftarrow>plain_entries pid (addToCart p q JUndefined c). quantity it)
      = (\<Sum>it\<leftarrow>plain_entries pid c. quantity it) + default_quantity q"
    using addToCart_plain_quantity [of JUndefined p q c] pid by simp
  from Cons.prems have rest: "\<forall>(p, q)\<in>set calls. oid p = pid" by simp
  show ?case
    using Cons.IH [OF rest, of "addToCart p q JUndefined c"] step
    by (simp add: call)
qed

lemma addToCart_all_plain:
  assumes "\<not> truthy cc" and "\<forall>it\<in>set c. plain_entry (oid p) it"
  shows "\<forall>it\<in>set (addToCart p q cc c). plain_entry (oid p) it"
  using addToCart_plain_cases [OF assms(1), of p c q] assms
  by (auto simp add: plain_entry_spread_item) (auto simp add: plain_entry_def)

lemma addAll_all_plain:
  assumes "\<forall>(p, q)\<in>set calls. oid p = pid" and "\<forall>it\<in>set c. plain_entry pid it"
  shows "\<forall>it\<in>set (addAll calls c). plain_entry pid it"
  using assms
proof (induction calls arbitrary: c)
  case Nil
  then show ?case by simp
next
  case (Cons call calls)
  obtain p q where call: "call = (p, q)" by (cases call)
  with Cons.prems have pid: "oid p = pid" by simp
  have step: "\<forall>it\<in>set (addToCart p q JUndefined c). plain_entry pid it"
    using addToCart_all_plain [of JUndefined c p q] Cons.prems(2) pid by simp
  from Cons.prems have rest: "\<forall>(p, q)\<in>set calls. oid p = pid" by simp
  show ?case
    using Cons.IH [OF rest step] by (simp add: call)
qed

subsection \<open>At most one entry without a customization per product id\<close>

lemma distinct_map_filter_nth:
  assumes "distinct (map f (filter P xs))"
    and "i < length xs" and "j < length xs" and "i \<noteq> j"
    and "P (xs ! i)" and "P (xs ! j)"
  shows "f (xs ! i) \<noteq> f (xs ! j)"
  using assms
proof (induction xs arbitrary: i j)
  case Nil
  then show ?case by simp
next
  case (Cons x xs)
  have tail: "distinct (map f (filter P xs))"
    using Cons.prems(1) by (simp split: if_splits)
  have head: "f x \<notin> f ` set (filter P xs)" if "P x"
    using Cons.prems(1) that by simp
  show ?case
  proof (cases i)
    case 0
    with Cons.prems obtain j' where j: "j = Suc j'" by (cases j) auto
    from Cons.prems 0 j have "f (xs ! j') \<in> f ` set (filter P xs)" and "P x" by simp_all
    with head have "f x \<noteq> f (xs ! j')" by metis
    with 0 j show ?thesis by simp
  next
    case (Suc i')
    show ?thesis
    proof (cases j)
      case 0
      from Cons.prems 0 Suc have "f (xs ! i') \<in> f ` set (filter P xs)" and "P x"
        by simp_all
      with head have "f (xs ! i') \<noteq> f x" by metis
      with 0 Suc show ?thesis by simp
    next
      case (Suc j')
      with Cons.prems \<open>i = Suc i'\<close> tail show ?thesis
        using Cons.IH [of i' j'] by simp
    qed
  qed
qed

lemma plain_unique_no_duplicate: "plain_unique c \<Longrightarrow> \<not> duplicate_plain c"
  unfolding plain_unique_def duplicate_plain_def
  using distinct_map_filter_nth [of oid "\<lambda>it. \<not> truthy (customCoffee it)" c]
  by blast

lemma plain_unique_quantity_update:
  "plain_unique (ys @ x\<lparr>quantity := n\<rparr> # zs) = plain_unique (ys @ x # zs)"
  by (simp add: plain_unique_def)

lemma plain_unique_addToCart:
  assumes "plain_unique c"
  shows "plain_unique (addToCart p q cc c)"
proof (cases "truthy cc")
  case True
  then have "addToCart p q cc c
      = c @ [spread_item p (default_quantity q) (default_customCoffee cc)]"
    by (simp add: addToCart_append)
  with True assms show ?thesis
    by (simp add: plain_unique_def spread_item_def)
next
  case False
  from addToCart_plain_cases [OF False, of p c q] show ?thesis
  proof (elim disjE conjE exE)
    assume none: "plain_entries (oid p) c = []"
      and add: "addToCart p q cc c
        = c @ [spread_item p (default_quantity q) (default_customCoffee cc)]"
    from none have "oid p \<notin> oid ` {it \<in> set c. \<not> truthy (customCoffee it)}"
      by (auto simp add: plain_entries_def plain_entry_def filter_empty_conv)
    with assms False show ?thesis
      by (simp add: add plain_unique_def spread_item_def)
  next
    fix ys x zs
    assume "c = ys @ x # zs"
      and "addToCart p q cc c = ys @ x\<lparr>quantity := quantity x + default_quantity q\<rparr> # zs"
    with assms show ?thesis by (simp add: plain_unique_quantity_update)
  qed
qed

lemma plain_unique_removeFromCart:
  assumes "plain_unique c"
  shows "plain_unique (removeFromCart i c)"
proof (cases "0 \<le> i \<and> i < int (length c)")
  case True
  then have lt: "nat i < length c" by linarith
  have "plain_unique (take (nat i) c @ c ! nat i # drop (Suc (nat i)) c)"
    using assms id_take_nth_drop [OF lt] by simp
  then have "plain_unique (take (nat i) c @ drop (Suc (nat i)) c)"
    by (auto simp add: plain_unique_def split: if_splits)
  with True show ?thesis by (simp add: removeFromCart_inside)
next
  case False
  then have "removeFromCart i c = c" by (intro removeFromCart_outside) linarith
  with assms show ?thesis by simp
qed

lemma plain_unique_updateQuantity:
  assumes "plain_unique c" and "updateQuantity i q c = Inr c'"
  shows "plain_unique c'"
proof (cases "q \<le> 0")
  case True
  with assms show ?thesis
    by (auto simp add: updateQuantity_def plain_unique_removeFromCart)
next
  case False
  with assms(2) have range: "0 \<le> i" "i < int (length c)"
    and c': "c' = c[nat i := (c ! nat i)\<lparr>quantity := q\<rparr>]"
    by (auto simp add: updateQuantity_def split: if_splits)
  from range have lt: "nat i < length c" by linarith
  have "c' = take (nat i) c @ (c ! nat i)\<lparr>quantity := q\<rparr> # drop (Suc (nat i)) c"
    using lt by (simp add: c' upd_conv_take_nth_drop)
  moreover have "plain_unique (take (nat i) c @ c ! nat i # drop (Suc (nat i)) c)"
    using assms(1) id_take_nth_drop [OF lt] by simp
  ultimately show ?thesis by (simp add: plain_unique_quantity_update)
qed

lemma plain_unique_cart_call:
  assumes "plain_unique c" and "cart_call_apply x c = Inr c'"
  shows "plain_unique c'"
proof (cases x)
  case (AddToCart p q cc)
  with assms show ?thesis by (auto simp add: plain_unique_addToCart)
next
  case (RemoveFromCart i)
  with assms show ?thesis by (auto simp add: plain_unique_removeFromCart)
next
  case (UpdateQuantity i q)
  with assms show ?thesis by (auto intro: plain_unique_updateQuantity)
next
  case ClearCart
  with assms show ?thesis by (auto simp add: clearCart_def plain_unique_def)
qed

lemma plain_unique_cart_run:
  assumes "plain_unique c" and "cart_run xs c = Inr c'"
  shows "plain_unique c'"
  using assms
proof (induction xs arbitrary: c)
  case Nil
  then show ?case by simp
next
  case (Cons x xs)
  from Cons.prems(2) obtain c1 where c1: "cart_call_apply x c = Inr c1"
    and run: "cart_run xs c1 = Inr c'"
    by (auto split: sum.splits)
  from Cons.prems(1) c1 have "plain_unique c1" by (rule plain_unique_cart_call)
  then show ?case using run by (rule Cons.IH)
qed

text \<open>
  C1 (amended). For every non-empty run of \<open>addToCart\<close> calls that pass no
  customization and share one product id, started from any cart that holds no
  customization-free entry with that id, the cart afterwards holds exactly one
  customization-free entry with that id, and its quantity is the sum of the requested
  quantities; started from the empty cart, that entry is the whole cart. No cart
  reached from the empty cart by calls of the cart store holds two entries with the
  same product id that both lack a customization.
\<close>

theorem addAll_one_plain_entry:
  "(calls \<noteq> [] \<and> (\<forall>(p, q)\<in>set calls. oid p = pid) \<and> plain_entries pid c = [] \<longrightarrow>
      (\<exists>it. plain_entries pid (addAll calls c) = [it]
         \<and> quantity it = (\<Sum>(p, q)\<leftarrow>calls. default_quantity q))
      \<and> (c = [] \<longrightarrow> plain_entries pid (addAll calls c) = addAll calls c))
   \<and> (cart_run ops [] = Inr c' \<longrightarrow> \<not> duplicate_plain c')"
proof (intro conjI impI)
  assume h: "calls \<noteq> [] \<and> (\<forall>(p, q)\<in>set calls. oid p = pid) \<and> plain_entries pid c = []"
  then have same: "\<forall>(p, q)\<in>set calls. oid p = pid" by blast
  from h have "length (plain_entries pid (addAll calls c)) = 1"
    using addAll_plain_length [OF same, of c] by simp
  then obtain it where it: "plain_entries pid (addAll calls c) = [it]"
    by (cases "plain_entries pid (addAll calls c)") auto
  have "(\<Sum>it\<leftarrow>plain_entries pid (addAll calls c). quantity it)
      = (\<Sum>(p, q)\<leftarrow>calls. default_quantity q)"
    using addAll_plain_quantity [OF same, of c] h by simp
  with it have "quantity it = (\<Sum>(p, q)\<leftarrow>calls. default_quantity q)" by simp
  with it show "\<exists>it. plain_entries pid (addAll calls c) = [it]
         \<and> quantity it = (\<Sum>(p, q)\<leftarrow>calls. default_quantity q)"
    by blast
next
  assume h: "calls \<noteq> [] \<and> (\<forall>(p, q)\<in>set calls. oid p = pid) \<and> plain_entries pid c = []"
    and "c = []"
  then have "\<forall>it\<in>set (addAll calls c). plain_entry pid it"
    by (intro addAll_all_plain) auto
  then show "plain_entries pid (addAll calls c) = addAll calls c"
    by (simp add: plain_entries_def)
next
  assume "cart_run ops [] = Inr c'"
  moreover have "plain_unique []" by (simp add: plain_unique_def)
  ultimately have "plain_unique c'" by (rule plain_unique_cart_run [rotated])
  then show "\<not> duplicate_plain c'" by (rule plain_unique_no_duplicate)
qed

theorem addAll_one_plain_entry_witness:
  "addAll [(test_product, Some 1), (test_product, None)] [] = [spread_item test_product 2 JNull]
   \<and> cart_run [AddToCart test_product (Some 1) JNull, AddToCart test_coffee None size_large,
        AddToCart test_product None JNull, UpdateQuantity 1 0] []
       = Inr [spread_item test_product 2 JNull]
   \<and> \<not> duplicate_plain [spread_item test_product 2 JNull]"
proof -
  have run: "cart_run [AddToCart test_product (Some 1) JNull,
        AddToCart test_coffee None size_large,
        AddToCart test_product None JNull, UpdateQuantity 1 0] []
       = Inr [spread_item test_product 2 JNull]"
    by (simp add: addToCart_def findIndex_def default_quantity_def default_customCoffee_def
          spread_item_def updateQuantity_def removeFromCart_def size_large_def
          test_product_def test_coffee_def enumerate_eq_zip upt_rec)
  have all: "addAll [(test_product, Some 1), (test_product, None)] []
      = [spread_item test_product 2 JNull]"
    by (simp add: addToCart_def findIndex_def default_quantity_def default_customCoffee_def
          spread_item_def)
  from addAll_one_plain_entry
         [of "[(test_product, Some 1), (test_product, None)]" "''1''" "[]"
             "[AddToCart test_product (Some 1) JNull, AddToCart test_coffee None size_large,
               AddToCart test_product None JNull, UpdateQuantity 1 0]"
             "[spread_item test_product 2 JNull]"]
  show ?thesis using run all
    by (simp add: plain_entries_def test_product_def)
qed

theorem addAll_existing_entry_counterexample:
  "addAll [(test_product, Some 2)] [spread_item test_product 5 JNull]
     = [spread_item test_product 7 JNull]
   \<and> default_quantity (Some 2) = 2"
  by (simp add: addToCart_def findIndex_def default_quantity_def default_customCoffee_def
        spread_item_def)

section \<open>Properties of the coffee builder\<close>

lemma radio_value_allowed: "radio_value r \<in> set [''none'', ''regular'', ''oat'']"
  by (cases r) simp_all

lemma builder_click_in_range:
  assumes "builder_in_range b"
  shows "builder_in_range (builder_click_apply x b)"
proof (cases x)
  case (MilkChange r)
  with assms radio_value_allowed [of r] show ?thesis
    by (simp add: builder_in_range_def)
qed (use assms in \<open>auto simp add: builder_in_range_def\<close>)

lemma builder_run_in_range:
  "builder_in_range b \<Longrightarrow> builder_in_range (builder_run xs b)"
  by (induction xs arbitrary: b) (simp_all add: builder_click_in_range)

lemma initial_builder_in_range: "builder_in_range initial_builder"
  by (simp add: builder_in_range_def initial_builder_def)

lemma calculatePrice_spec:
  "milk b \<in> set [''none'', ''regular'', ''oat''] \<Longrightarrow> calculatePrice b = spec_price b"
  by (auto simp add: calculatePrice_def spec_price_def spec_milk_delta_def Let_def
        basePrice_def addOns_sugar_def addOns_milk_regular_def addOns_milk_oat_def
        addOns_coffee_def addOns_chocolate_def algebra_simps)

lemma calculatePrice_expand:
  "calculatePrice b =
     7 / 2 + of_int (sugar b) * (1 / 4)
       + (if milk b = ''regular'' then 1 / 2 else 0) + (if milk b = ''oat'' then 3 / 4 else 0)
       + of_int (coffee b - 1) * (3 / 4) + of_int (chocolate b) * (1 / 2)"
  by (simp add: calculatePrice_def Let_def
        basePrice_def addOns_sugar_def addOns_milk_regular_def addOns_milk_oat_def
        addOns_coffee_def addOns_chocolate_def)

text \<open>
  C9. Every option state reached from the initial one by the builder's controls has
  its options in their ranges (sugar 0 to 5, milk none, regular or oat, coffee 1 to 4,
  chocolate 0 to 5). For every option state in these ranges the computed price is 3.50
  plus 0.25 per sugar, plus 0, 0.50 or 0.75 for milk none, regular or oat, plus 0.75
  per shot beyond the first, plus 0.50 per chocolate pump; and the computed price does
  not decrease when one numeric option grows while the other options stay as they are.
\<close>

theorem calculatePrice_formula_and_monotone:
  "builder_in_range (builder_run clicks initial_builder)
   \<and> (builder_in_range b \<longrightarrow> calculatePrice b = spec_price b)
   \<and> (milk b1 = milk b2 \<and> sugar b1 \<le> sugar b2 \<and> coffee b1 = coffee b2
        \<and> chocolate b1 = chocolate b2 \<longrightarrow> calculatePrice b1 \<le> calculatePrice b2)
   \<and> (milk b1 = milk b2 \<and> sugar b1 = sugar b2 \<and> coffee b1 \<le> coffee b2
        \<and> chocolate b1 = chocolate b2 \<longrightarrow> calculatePrice b1 \<le> calculatePrice b2)
   \<and> (milk b1 = milk b2 \<and> sugar b1 = sugar b2 \<and> coffee b1 = coffee b2
        \<and> chocolate b1 \<le> chocolate b2 \<longrightarrow> calculatePrice b1 \<le> calculatePrice b2)"
proof (intro conjI impI)
  show "builder_in_range (builder_run clicks initial_builder)"
    by (simp add: builder_run_in_range initial_builder_in_range)
next
  assume "builder_in_range b"
  then show "calculatePrice b = spec_price b"
    by (intro calculatePrice_spec) (simp add: builder_in_range_def)
next
  assume "milk b1 = milk b2 \<and> sugar b1 \<le> sugar b2 \<and> coffee b1 = coffee b2
        \<and> chocolate b1 = chocolate b2"
  then show "calculatePrice b1 \<le> calculatePrice b2"
    by (simp add: calculatePrice_expand)
next
  assume "milk b1 = milk b2 \<and> sugar b1 = sugar b2 \<and> coffee b1 \<le> coffee b2
        \<and> chocolate b1 = chocolate b2"
  then show "calculatePrice b1 \<le> calculatePrice b2"
    by (simp add: calculatePrice_expand)
next
  assume "milk b1 = milk b2 \<and> sugar b1 = sugar b2 \<and> coffee b1 = coffee b2
        \<and> chocolate b1 \<le> chocolate b2"
  then show "calculatePrice b1 \<le> calculatePrice b2"
    by (simp add: calculatePrice_expand)
qed

theorem calculatePrice_formula_and_monotone_witness:
  "builder_in_range (builder_run [SugarPlus, MilkChange RadioOat, CoffeePlus] initial_builder)
   \<and> calculatePrice (builder_run [SugarPlus, MilkChange RadioOat, CoffeePlus] initial_builder)
     = 21 / 4
   \<and> calculatePrice (builder_run [MilkChange RadioOat, CoffeePlus] initial_builder)
     \<le> calculatePrice (builder_run [SugarPlus, MilkChange RadioOat, CoffeePlus] initial_builder)
   \<and> calculatePrice (builder_run [SugarPlus, MilkChange RadioOat] initial_builder)
     \<le> calculatePrice (builder_run [SugarPlus, MilkChange RadioOat, CoffeePlus] initial_builder)
   \<and> calculatePrice (builder_run [SugarPlus, MilkChange RadioOat, CoffeePlus] initial_builder)
     \<le> calculatePrice
          (builder_run [SugarPlus, MilkChange RadioOat, CoffeePlus, ChocolatePlus] initial_builder)"
  using calculatePrice_formula_and_monotone
          [of "[SugarPlus, MilkChange RadioOat, CoffeePlus]"
              "builder_run [SugarPlus, MilkChange RadioOat, CoffeePlus] initial_builder"
              "builder_run [MilkChange RadioOat, CoffeePlus] initial_builder"
              "builder_run [SugarPlus, MilkChange RadioOat, CoffeePlus] initial_builder"]
        calculatePrice_formula_and_monotone
          [of "[SugarPlus, MilkChange RadioOat, CoffeePlus]"
              "builder_run [SugarPlus, MilkChange RadioOat, CoffeePlus] initial_builder"
              "builder_run [SugarPlus, MilkChange RadioOat] initial_builder"
              "builder_run [SugarPlus, MilkChange RadioOat, CoffeePlus] initial_builder"]
        calculatePrice_formula_and_monotone
          [of "[SugarPlus, MilkChange RadioOat, CoffeePlus]"
              "builder_run [SugarPlus, MilkChange RadioOat, CoffeePlus] initial_builder"
              "builder_run [SugarPlus, MilkChange RadioOat, CoffeePlus] initial_builder"
              "builder_run [SugarPlus, MilkChange RadioOat, CoffeePlus, ChocolatePlus]
                 initial_builder"]
  by (simp add: initial_builder_def spec_price_def spec_milk_delta_def)

subsection \<open>The builder's Add to Cart\<close>

text \<open>The builder's Add to Cart always passes a customization object with four
  properties, so each press appends one entry, whatever the cart already holds.\<close>

lemma handleAddToCart_appends:
  "length (handleAddToCart now b c) = Suc (length c)
   \<and> take (length c) (handleAddToCart now b c) = c
   \<and> customCoffee (last (handleAddToCart now b c)) = coffeeConfig b
   \<and> price (last (handleAddToCart now b c)) = calculatePrice b"
  by (simp add: handleAddToCart_def coffeeConfig_def addToCart_append
        default_customCoffee_def default_quantity_def spread_item_def)

lemma decimal_example: "decimal 1700000000000 = ''1700000000000''"
  by simp

lemma handleAddToCart_same_options_twice:
  "map customCoffee
     (handleAddToCart 1700000000001 initial_builder
        (handleAddToCart 1700000000000 initial_builder []))
   = [coffeeConfig initial_builder, coffeeConfig initial_builder]"
  using handleAddToCart_appends [of 1700000000000 initial_builder "[]"]
  by (simp add: handleAddToCart_def coffeeConfig_def addToCart_append
        default_customCoffee_def default_quantity_def spread_item_def)

section \<open>Properties of checkout\<close>

lemma handleCheckout_rejected:
  "handleCheckout (Inl e) s =
     Inr (s\<lparr>fetch_calls := fetch_calls s @ [make_orderData (page_cart s)],
            awaiting := awaiting s,
            console_error := console_error s @ [e], toast := Some toast_error\<rparr>)"
  by (simp add: handleCheckout_def handleCheckout_resume_def handleCheckout_call_def
        try_block_def catch_block_def)

lemma handleCheckout_not_ok:
  "\<not> ok r \<Longrightarrow> handleCheckout (Inr r) s =
     Inr (s\<lparr>fetch_calls := fetch_calls s @ [make_orderData (page_cart s)],
            awaiting := awaiting s, toast := Some toast_failed\<rparr>)"
  by (simp add: handleCheckout_def handleCheckout_resume_def handleCheckout_call_def
        try_block_def)

text \<open>
  C3. For every press of Place Order: when the response has a status outside 200 to
  299, the function returns without throwing, the cart is as before and the toast is
  the "Failed to place order" message; when the request rejects with an error, the
  function returns without throwing, the error is logged, the cart is as before and
  the toast is the "Error placing order" message, which differs from the first. With
  a non-empty cart the toast is rendered.
\<close>

theorem handleCheckout_failure_keeps_cart:
  "(status r < 200 \<or> 299 < status r \<longrightarrow>
      (\<exists>s'. handleCheckout (Inr r) s = Inr s' \<and> page_cart s' = page_cart s
            \<and> toast s' = Some ''Failed to place order. Please try again.''
            \<and> (page_cart s \<noteq> [] \<longrightarrow> shown_toast s' = toast s')))
   \<and> (\<exists>s'. handleCheckout (Inl e) s = Inr s' \<and> page_cart s' = page_cart s
            \<and> toast s' = Some ''Error placing order. Please try again.''
            \<and> console_error s' = console_error s @ [e]
            \<and> (page_cart s \<noteq> [] \<longrightarrow> shown_toast s' = toast s'))
   \<and> toast_failed \<noteq> toast_error"
proof (intro conjI impI)
  assume "status r < 200 \<or> 299 < status r"
  then have "\<not> ok r" by (auto simp add: ok_def)
  then show "\<exists>s'. handleCheckout (Inr r) s = Inr s' \<and> page_cart s' = page_cart s
            \<and> toast s' = Some ''Failed to place order. Please try again.''
            \<and> (page_cart s \<noteq> [] \<longrightarrow> shown_toast s' = toast s')"
    by (simp add: handleCheckout_not_ok toast_failed_def shown_toast_def)
next
  show "\<exists>s'. handleCheckout (Inl e) s = Inr s' \<and> page_cart s' = page_cart s
            \<and> toast s' = Some ''Error placing order. Please try again.''
            \<and> console_error s' = console_error s @ [e]
            \<and> (page_cart s \<noteq> [] \<longrightarrow> shown_toast s' = toast s')"
    by (simp add: handleCheckout_rejected toast_error_def shown_toast_def)
next
  show "toast_failed \<noteq> toast_error"
    by (simp add: toast_failed_def toast_error_def)
qed

theorem handleCheckout_failure_keeps_cart_witness:
  "(\<exists>s'. handleCheckout (Inr \<lparr>status = 500\<rparr>) confirming_page = Inr s'
        \<and> page_cart s' = [spread_item test_product 1 JNull]
        \<and> shown_toast s' = Some ''Failed to place order. Please try again.'')
   \<and> (\<exists>s'. handleCheckout (Inl (Error ''Network error'')) confirming_page = Inr s'
        \<and> page_cart s' = [spread_item test_product 1 JNull]
        \<and> shown_toast s' = Some ''Error placing order. Please try again.''
        \<and> console_error s' = [Error ''Network error''])"
  using handleCheckout_failure_keeps_cart
          [of "\<lparr>status = 500\<rparr>" confirming_page "Error ''Network error''"]
  by (auto simp add: confirming_page_def)

lemma click_place_order_rendered:
  "place_order_rendered s \<Longrightarrow> place_order_rendered (click_place_order s)"
  by (simp add: click_place_order_def place_order_rendered_def handleCheckout_call_def)

lemma click_place_order_awaiting:
  "place_order_rendered s \<Longrightarrow> awaiting (click_place_order s) = Suc (awaiting s)"
  by (simp add: click_place_order_def handleCheckout_call_def)

lemma clicks_place_order:
  "place_order_rendered s \<Longrightarrow>
     place_order_rendered ((click_place_order ^^ n) s)
     \<and> awaiting ((click_place_order ^^ n) s) = awaiting s + n"
  by (induction n) (simp_all add: click_place_order_rendered click_place_order_awaiting)

text \<open>
  C4 (amended). Every press of Place Order while the button is rendered makes one
  order-creation call, also while earlier calls are outstanding: the press reads no
  in-flight flag, the button stays rendered after the press, and \<open>n\<close> presses in a row
  leave \<open>n\<close> more calls outstanding.
\<close>

theorem click_place_order_always_calls:
  assumes "place_order_rendered s"
  shows "fetch_calls (click_place_order s) = fetch_calls s @ [make_orderData (page_cart s)]
     \<and> awaiting (click_place_order s) = Suc (awaiting s)
     \<and> place_order_rendered (click_place_order s)
     \<and> awaiting ((click_place_order ^^ n) s) = awaiting s + n"
  using assms clicks_place_order [OF assms, of n]
  by (simp add: click_place_order_rendered click_place_order_awaiting)
     (simp add: click_place_order_def handleCheckout_call_def)

theorem click_place_order_always_calls_witness:
  "place_order_rendered confirming_page
   \<and> fetch_calls (click_place_order confirming_page) = [make_orderData (page_cart confirming_page)]
   \<and> awaiting (click_place_order confirming_page) = 1
   \<and> awaiting ((click_place_order ^^ 3) confirming_page) = 3"
proof -
  have r: "place_order_rendered confirming_page"
    by (simp add: place_order_rendered_def confirming_page_def)
  show ?thesis
    using r click_place_order_always_calls [OF r, of 3]
    by (simp add: confirming_page_def)
qed

theorem second_press_counterexample:
  "place_order_rendered confirming_page
   \<and> awaiting (click_place_order confirming_page) = 1
   \<and> place_order_rendered (click_place_order confirming_page)
   \<and> awaiting (click_place_order (click_place_order confirming_page)) = 2
   \<and> length (fetch_calls (click_place_order (click_place_order confirming_page))) = 2"
  by (simp add: click_place_order_def place_order_rendered_def handleCheckout_call_def
        confirming_page_def)

section \<open>Properties of loading the cart\<close>

text \<open>
  C5 (amended). On mount the cart store reads the slot under the key \<open>cart\<close>. When the
  slot is absent or holds the empty text, the cart stays empty. When the slot holds a
  text on which \<^verbatim>\<open>JSON.parse\<close> throws, the error is not caught: it leaves the mount
  effect and no cart is set. When \<^verbatim>\<open>JSON.parse\<close> returns, its result becomes the cart.
\<close>

theorem CartProvider_mount_reads_slot:
  "(localStorage ''cart'' = None \<or> localStorage ''cart'' = Some [] \<longrightarrow>
      CartProvider_mount localStorage parsed = Inr [])
   \<and> (localStorage ''cart'' = Some saved \<and> saved \<noteq> [] \<longrightarrow>
      CartProvider_mount localStorage (Inl e) = Inl e
      \<and> CartProvider_mount localStorage (Inr c) = Inr c)"
  by (auto simp add: CartProvider_mount_def)

text \<open>The slot absent; the slot holding \<^verbatim>\<open>{bad json\<close>, which is not a JSON text (an
  object needs a quoted property name and a closing brace), so that \<^verbatim>\<open>JSON.parse\<close>
  throws a SyntaxError; the slot holding \<^verbatim>\<open>[]\<close>, the empty array.\<close>

theorem CartProvider_mount_reads_slot_witness:
  "CartProvider_mount Map.empty (Inr []) = Inr []
   \<and> CartProvider_mount [''cart'' \<mapsto> ''{bad json''] (Inl SyntaxError) = Inl SyntaxError
   \<and> CartProvider_mount [''cart'' \<mapsto> ''[]''] (Inr []) = Inr []"
  using CartProvider_mount_reads_slot
          [where localStorage = Map.empty and parsed = "Inr []"]
        CartProvider_mount_reads_slot
          [where localStorage = "[''cart'' \<mapsto> ''{bad json'']" and saved = "''{bad json''"
             and e = SyntaxError]
        CartProvider_mount_reads_slot
          [where localStorage = "[''cart'' \<mapsto> ''[]'']" and saved = "''[]''" and c = "[]"]
  by simp

theorem corrupt_slot_counterexample:
  "CartProvider_mount [''cart'' \<mapsto> ''{bad json''] (Inl SyntaxError) = Inl SyntaxError
   \<and> CartProvider_mount [''cart'' \<mapsto> ''{bad json''] (Inl SyntaxError) \<noteq> Inr []"
  by (simp add: CartProvider_mount_def)

end
